theory Spec2Isabelle
  imports Main "HOL-Library.Product_Lexorder" "HOL-Library.Char_ord" "HOL-Library.List_Lexorder"
begin

section \<open>Text\<close>

text \<open>
  A file's content and every Python \<open>str\<close> is a \<open>string\<close>: the list of its 8-bit
  characters. The model is exact on ASCII text. A character above 127 has no case and is
  neither a digit nor whitespace, and slices count characters of this list.
\<close>

definition isspace :: "char \<Rightarrow> bool" where
  \<comment> \<open>\<open>str.isspace\<close>, also the class \<open>\s\<close> of \<open>re\<close>: tab, LF, VT, FF, CR, FS, GS, RS, US, space\<close>
  "isspace c \<longleftrightarrow> c \<in> set [CHR 0x09, CHR 0x0A, CHR 0x0B, CHR 0x0C, CHR 0x0D,
                           CHR 0x1C, CHR 0x1D, CHR 0x1E, CHR 0x1F, CHR 0x20]"

definition isdigit :: "char \<Rightarrow> bool" where
  \<comment> \<open>the class \<open>\d\<close>, and \<open>0-9\<close> inside a bracket\<close>
  "isdigit c \<longleftrightarrow> c \<in> set ''0123456789''"

definition is_lower_az :: "char \<Rightarrow> bool" where
  "is_lower_az c \<longleftrightarrow> c \<in> set ''abcdefghijklmnopqrstuvwxyz''"

definition is_upper_az :: "char \<Rightarrow> bool" where
  "is_upper_az c \<longleftrightarrow> c \<in> set ''ABCDEFGHIJKLMNOPQRSTUVWXYZ''"

definition lower_char :: "char \<Rightarrow> char" where
  "lower_char c =
     (case map_of (zip ''ABCDEFGHIJKLMNOPQRSTUVWXYZ'' ''abcdefghijklmnopqrstuvwxyz'') c of
        Some d \<Rightarrow> d
      | None \<Rightarrow> c)"

definition upper_char :: "char \<Rightarrow> char" where
  "upper_char c =
     (case map_of (zip ''abcdefghijklmnopqrstuvwxyz'' ''ABCDEFGHIJKLMNOPQRSTUVWXYZ'') c of
        Some d \<Rightarrow> d
      | None \<Rightarrow> c)"

definition lower :: "string \<Rightarrow> string" where
  \<comment> \<open>\<open>str.lower\<close>\<close>
  "lower s = map lower_char s"

definition lstrip :: "string \<Rightarrow> string" where
  \<comment> \<open>\<open>str.lstrip()\<close>\<close>
  "lstrip s = dropWhile isspace s"

definition rstrip :: "string \<Rightarrow> string" where
  \<comment> \<open>\<open>str.rstrip()\<close>\<close>
  "rstrip s = rev (dropWhile isspace (rev s))"

definition strip :: "string \<Rightarrow> string" where
  \<comment> \<open>\<open>str.strip()\<close>\<close>
  "strip s = rstrip (lstrip s)"

definition strip_chars :: "char \<Rightarrow> string \<Rightarrow> string" where
  \<comment> \<open>\<open>s.strip(c)\<close> for a one-character argument\<close>
  "strip_chars c s = rev (dropWhile (\<lambda>x. x = c) (rev (dropWhile (\<lambda>x. x = c) s)))"

fun startswith :: "string \<Rightarrow> string \<Rightarrow> bool" where
  \<comment> \<open>\<open>s.startswith(p)\<close>, written \<open>startswith p s\<close>\<close>
  "startswith [] s = True"
| "startswith (p # ps) [] = False"
| "startswith (p # ps) (c # cs) = (p = c \<and> startswith ps cs)"

fun contains :: "string \<Rightarrow> string \<Rightarrow> bool" where
  \<comment> \<open>\<open>p in s\<close>, written \<open>contains p s\<close>\<close>
  "contains p [] = (p = [])"
| "contains p (c # cs) = (startswith p (c # cs) \<or> contains p cs)"

section \<open>Files\<close>

text \<open>
  A directory is the list of its files in iteration order, each a name with its content;
  names are unique. Reading a name that is absent raises.
\<close>

type_synonym dir = "(string \<times> string) list"

datatype py_error = FileNotFoundError | ValueError

definition read_text :: "dir \<Rightarrow> string \<Rightarrow> py_error + string" where
  "read_text fs p = (case map_of fs p of None \<Rightarrow> Inl FileNotFoundError | Some c \<Rightarrow> Inr c)"

fun write_text :: "dir \<Rightarrow> string \<Rightarrow> string \<Rightarrow> dir" where
  "write_text [] p c = [(p, c)]"
| "write_text ((q, d) # fs) p c = (if q = p then (q, c) # fs else (q, d) # write_text fs p c)"

definition unlink :: "dir \<Rightarrow> string \<Rightarrow> dir" where
  "unlink fs p = filter (\<lambda>(q, d). q \<noteq> p) fs"

definition endswith :: "string \<Rightarrow> string \<Rightarrow> bool" where
  \<comment> \<open>\<open>s.endswith(p)\<close>, written \<open>endswith p s\<close>\<close>
  "endswith p s \<longleftrightarrow> length p \<le> length s \<and> drop (length s - length p) s = p"

definition glob_md :: "string \<Rightarrow> bool" where
  \<comment> \<open>the pattern \<open>*.md\<close>\<close>
  "glob_md name \<longleftrightarrow> endswith ''.md'' name"

definition glob_conversation :: "string \<Rightarrow> bool" where
  \<comment> \<open>the pattern \<open>claude-conversation-*.md\<close>\<close>
  "glob_conversation name \<longleftrightarrow>
     startswith ''claude-conversation-'' name \<and>
     endswith ''.md'' (drop (length ''claude-conversation-'') name)"

section \<open>Matching\<close>

definition match_literal :: "string \<Rightarrow> string \<Rightarrow> string option" where
  \<comment> \<open>a literal at the head of the text; the result is the text after it\<close>
  "match_literal lit s = (if startswith lit s then Some (drop (length lit) s) else None)"

definition match_literal_ci :: "string \<Rightarrow> string \<Rightarrow> string option" where
  \<comment> \<open>the same under \<open>re.IGNORECASE\<close>; \<open>lit\<close> is given in lower case\<close>
  "match_literal_ci lit s =
     (if startswith lit (lower (take (length lit) s)) then Some (drop (length lit) s) else None)"

fun match_ymd :: "string \<Rightarrow> (string \<times> string \<times> string \<times> string) option" where
  \<comment> \<open>\<open>(\d{4})-(\d{2})-(\d{2})\<close> at the head of the text: the three groups and the rest\<close>
  "match_ymd (y1 # y2 # y3 # y4 # h1 # m1 # m2 # h2 # d1 # d2 # rest) =
     (if isdigit y1 \<and> isdigit y2 \<and> isdigit y3 \<and> isdigit y4 \<and> h1 = CHR ''-'' \<and>
         isdigit m1 \<and> isdigit m2 \<and> h2 = CHR ''-'' \<and> isdigit d1 \<and> isdigit d2
      then Some ([y1, y2, y3, y4], [m1, m2], [d1, d2], rest) else None)"
| "match_ymd _ = None"

fun find_str :: "string \<Rightarrow> string \<Rightarrow> nat option" where
  \<comment> \<open>\<open>s.find(p)\<close>, written \<open>find_str p s\<close>; \<open>None\<close> is Python's -1\<close>
  "find_str p [] = (if p = [] then Some 0 else None)"
| "find_str p (c # cs) =
     (if startswith p (c # cs) then Some 0 else map_option Suc (find_str p cs))"

function replace_str :: "string \<Rightarrow> string \<Rightarrow> string \<Rightarrow> string" where
  \<comment> \<open>\<open>s.replace(old, new)\<close>, written \<open>replace_str old new s\<close>\<close>
  "replace_str old new [] = (if old = [] then new else [])"
| "replace_str old new (c # cs) =
     (if old = [] then new @ c # replace_str old new cs
      else if startswith old (c # cs) then new @ replace_str old new (drop (length old) (c # cs))
      else c # replace_str old new cs)"
  by pat_completeness auto
termination
  by (relation "measure (\<lambda>(old, new, s). length s)") auto

fun search_with :: "(string \<Rightarrow> 'a option) \<Rightarrow> string \<Rightarrow> 'a option" where
  \<comment> \<open>\<open>re.search\<close>: the match at the leftmost position that has one\<close>
  "search_with m [] = m []"
| "search_with m (c # cs) =
     (case m (c # cs) of Some g \<Rightarrow> Some g | None \<Rightarrow> search_with m cs)"

definition truthy :: "string option \<Rightarrow> bool" where
  \<comment> \<open>the truth value of a \<open>str | None\<close>: neither \<open>None\<close> nor the empty string\<close>
  "truthy v \<longleftrightarrow> (case v of None \<Rightarrow> False | Some s \<Rightarrow> s \<noteq> [])"

section \<open>The Reconciler (update-extracts.py)\<close>

definition USER_NOTES_START :: string where
  "USER_NOTES_START = ''<!-- USER NOTES - This section will be preserved on update -->''"

definition USER_NOTES_END :: string where
  "USER_NOTES_END = ''<!-- END USER NOTES -->''"

definition is_sid_char :: "char \<Rightarrow> bool" where
  \<comment> \<open>the class \<open>[a-f0-9-]\<close> under \<open>re.IGNORECASE\<close>\<close>
  "is_sid_char c \<longleftrightarrow> c \<in> set ''abcdefABCDEF0123456789-''"

definition match_session_id :: "string \<Rightarrow> string option" where
  \<comment> \<open>\<open>Session ID:\s*([a-f0-9-]+)\<close> at the head of the text: group 1\<close>
  "match_session_id s =
     (case match_literal_ci ''session id:'' s of
        None \<Rightarrow> None
      | Some r \<Rightarrow>
          (let g = takeWhile is_sid_char (dropWhile isspace r)
           in if g \<noteq> [] then Some g else None))"

definition extract_session_id_from_content :: "string \<Rightarrow> string option" where
  "extract_session_id_from_content content =
     (case search_with match_session_id content of
        Some session_id \<Rightarrow>
          Some (if CHR ''-'' \<in> set session_id
                then takeWhile (\<lambda>c. c \<noteq> CHR ''-'') session_id else session_id)
      | None \<Rightarrow> None)"

definition is_hex_lower :: "char \<Rightarrow> bool" where
  \<comment> \<open>the class \<open>[a-f0-9]\<close>\<close>
  "is_hex_lower c \<longleftrightarrow> c \<in> set ''abcdef0123456789''"

definition match_export_name :: "string \<Rightarrow> string option" where
  \<comment> \<open>\<open>claude-conversation-\d{4}-\d{2}-\d{2}-([a-f0-9]{8,})\<close> at the head of the text\<close>
  "match_export_name s =
     (case match_literal ''claude-conversation-'' s of
        None \<Rightarrow> None
      | Some r \<Rightarrow>
          (case match_ymd r of
             None \<Rightarrow> None
           | Some (y, m, d, r1) \<Rightarrow>
               (case match_literal ''-'' r1 of
                  None \<Rightarrow> None
                | Some r2 \<Rightarrow>
                    (let g = takeWhile is_hex_lower r2
                     in if 8 \<le> length g then Some g else None))))"

definition match_agent_name :: "string \<Rightarrow> string option" where
  \<comment> \<open>\<open>agent-([a-f0-9]{2,})\<close> at the head of the text\<close>
  "match_agent_name s =
     (case match_literal ''agent-'' s of
        None \<Rightarrow> None
      | Some r \<Rightarrow>
          (let g = takeWhile is_hex_lower r
           in if 2 \<le> length g then Some g else None))"

definition extract_session_id_from_filename :: "string \<Rightarrow> string option" where
  "extract_session_id_from_filename filename =
     (case search_with match_export_name filename of
        Some g \<Rightarrow> Some g
      | None \<Rightarrow>
          (case search_with match_agent_name filename of
             Some g \<Rightarrow> Some g
           | None \<Rightarrow> None))"

definition extract_user_notes :: "string \<Rightarrow> string option" where
  "extract_user_notes content =
     (case (find_str USER_NOTES_START content, find_str USER_NOTES_END content) of
        (Some start_idx, Some end_idx) \<Rightarrow>
          if end_idx > start_idx
          then Some (take (end_idx + length USER_NOTES_END - start_idx) (drop start_idx content))
          else None
      | _ \<Rightarrow> None)"

definition merge_with_user_notes :: "string \<Rightarrow> string option \<Rightarrow> string" where
  "merge_with_user_notes new_content user_notes =
     (case user_notes of
        None \<Rightarrow> new_content
      | Some notes \<Rightarrow>
          if notes = [] then new_content
          else rstrip new_content @ [CHR 0x0A, CHR 0x0A] @ notes @ [CHR 0x0A])"

type_synonym index = "string \<rightharpoonup> (string \<times> string option)"

definition two_tier_session_id :: "string \<Rightarrow> string \<Rightarrow> string option" where
  \<comment> \<open>the session id from the content first, then from the file name\<close>
  "two_tier_session_id name content =
     (let session_id = extract_session_id_from_content content
      in if \<not> truthy session_id then extract_session_id_from_filename name else session_id)"

definition index_step :: "index \<Rightarrow> string \<times> string \<Rightarrow> index" where
  \<comment> \<open>the body of the loop of \<open>get_existing_files\<close>\<close>
  "index_step existing f =
     (case f of (name, content) \<Rightarrow>
        (let session_id = two_tier_session_id name content
         in case session_id of
              None \<Rightarrow> existing
            | Some sid \<Rightarrow>
                if sid \<noteq> [] then existing(sid \<mapsto> (name, extract_user_notes content))
                else existing))"

definition get_existing_files :: "dir \<Rightarrow> index" where
  "get_existing_files backup_dir =
     foldl index_step Map.empty (filter (\<lambda>(name, content). glob_md name) backup_dir)"

record stats =
  updated :: nat
  new :: nat
  unchanged :: nat
  skipped :: nat
  notes_preserved :: nat

definition old_without_notes :: "string \<Rightarrow> string option \<Rightarrow> string" where
  \<comment> \<open>lines 171 to 173: the old content with the indexed notes removed\<close>
  "old_without_notes old_content user_notes =
     (case user_notes of
        None \<Rightarrow> old_content
      | Some notes \<Rightarrow>
          if notes \<noteq> [] \<and> contains notes old_content
          then rstrip (replace_str notes [] old_content)
          else old_content)"

definition update_file :: "index \<Rightarrow> dir \<times> stats \<Rightarrow> string \<times> string \<Rightarrow> py_error + dir \<times> stats" where
  \<comment> \<open>the body of the loop over the new files\<close>
  "update_file existing acc new_file =
     (case (acc, new_file) of ((backup_dir, st), (new_name, new_content)) \<Rightarrow>
        (case two_tier_session_id new_name new_content of
           None \<Rightarrow> Inr (backup_dir, st\<lparr>skipped := skipped st + 1\<rparr>)
         | Some session_id \<Rightarrow>
             if session_id = [] then Inr (backup_dir, st\<lparr>skipped := skipped st + 1\<rparr>)
             else
               (case existing session_id of
                  Some (existing_file, user_notes) \<Rightarrow>
                    (case read_text backup_dir existing_file of
                       Inl e \<Rightarrow> Inl e
                     | Inr old_content \<Rightarrow>
                         (let final_content = merge_with_user_notes new_content user_notes
                          in if rstrip new_content \<noteq> rstrip (old_without_notes old_content user_notes)
                             then Inr (write_text backup_dir existing_file final_content,
                                       st\<lparr>updated := updated st + 1,
                                          notes_preserved :=
                                            (if truthy user_notes then notes_preserved st + 1
                                             else notes_preserved st)\<rparr>)
                             else Inr (backup_dir, st\<lparr>unchanged := unchanged st + 1\<rparr>)))
                | None \<Rightarrow>
                    Inr (write_text backup_dir new_name new_content, st\<lparr>new := new st + 1\<rparr>))))"

fun update_loop :: "index \<Rightarrow> dir \<times> stats \<Rightarrow> dir \<Rightarrow> py_error + dir \<times> stats" where
  "update_loop existing acc [] = Inr acc"
| "update_loop existing acc (new_file # new_files) =
     (case update_file existing acc new_file of
        Inl e \<Rightarrow> Inl e
      | Inr acc' \<Rightarrow> update_loop existing acc' new_files)"

datatype outcome = Extraction_failed | Counts stats

definition update_extracts :: "dir \<Rightarrow> dir option \<Rightarrow> py_error + dir \<times> outcome" where
  \<comment> \<open>\<open>run_extraction\<close> is the external collaborator: \<open>None\<close> when it fails, else the files
      it left in the temporary directory\<close>
  "update_extracts backup_dir extraction =
     (let existing = get_existing_files backup_dir
      in case extraction of
           None \<Rightarrow> Inr (backup_dir, Extraction_failed)
         | Some temp_dir \<Rightarrow>
             (let new_files = filter (\<lambda>(name, content). glob_conversation name) temp_dir
              in case update_loop existing
                        (backup_dir, \<lparr>updated = 0, new = 0, unchanged = 0, skipped = 0,
                                      notes_preserved = 0\<rparr>) new_files of
                   Inl e \<Rightarrow> Inl e
                 | Inr (backup_dir', st) \<Rightarrow> Inr (backup_dir', Counts st)))"

section \<open>The Renamer (rename-extracts.py)\<close>

subsection \<open>sanitize_description\<close>

definition is_slug_char :: "char \<Rightarrow> bool" where
  \<comment> \<open>the class \<open>[a-z0-9-]\<close>\<close>
  "is_slug_char c \<longleftrightarrow> is_lower_az c \<or> isdigit c \<or> c = CHR ''-''"

fun collapse_hyphens :: "string \<Rightarrow> string" where
  \<comment> \<open>\<open>re.sub(r'-+', '-', desc)\<close>\<close>
  "collapse_hyphens [] = []"
| "collapse_hyphens [c] = [c]"
| "collapse_hyphens (c # d # cs) =
     (if c = CHR ''-'' \<and> d = CHR ''-'' then collapse_hyphens (d # cs)
      else c # collapse_hyphens (d # cs))"

definition sanitize_description :: "string \<Rightarrow> string" where
  "sanitize_description desc =
     (let desc1 = map (\<lambda>c. if is_slug_char c then c else CHR ''-'') (lower desc);
          desc2 = collapse_hyphens desc1;
          desc3 = strip_chars (CHR ''-'') desc2
      in if desc3 \<noteq> [] then take 50 desc3 else ''conversation'')"

subsection \<open>Dates\<close>

text \<open>
  A \<open>datetime\<close> of the source carries a date only: year, month, day. The order of the
  triples is the order of \<open>datetime\<close>.
\<close>

type_synonym date = "nat \<times> nat \<times> nat"

definition digit_val :: "char \<Rightarrow> nat" where
  "digit_val c = of_char c - 48"

definition int_of_digits :: "string \<Rightarrow> nat" where
  \<comment> \<open>\<open>int(s)\<close> for a string of digits\<close>
  "int_of_digits s = foldl (\<lambda>n c. 10 * n + digit_val c) 0 s"

definition is_leap :: "nat \<Rightarrow> bool" where
  "is_leap y \<longleftrightarrow> y mod 4 = 0 \<and> (y mod 100 \<noteq> 0 \<or> y mod 400 = 0)"

definition days_in_month :: "nat \<Rightarrow> nat \<Rightarrow> nat" where
  "days_in_month y m =
     (if m = 2 then (if is_leap y then 29 else 28)
      else if m = 4 \<or> m = 6 \<or> m = 9 \<or> m = 11 then 30 else 31)"

definition datetime :: "nat \<Rightarrow> nat \<Rightarrow> nat \<Rightarrow> py_error + date" where
  \<comment> \<open>\<open>datetime(y, m, d)\<close>: a \<open>ValueError\<close> outside the calendar\<close>
  "datetime y m d =
     (if 1 \<le> y \<and> y \<le> 9999 \<and> 1 \<le> m \<and> m \<le> 12 \<and> 1 \<le> d \<and> d \<le> days_in_month y m
      then Inr (y, m, d) else Inl ValueError)"

definition digit_char :: "nat \<Rightarrow> char" where
  "digit_char n = ''0123456789'' ! (n mod 10)"

fun str_nat :: "nat \<Rightarrow> string" where
  \<comment> \<open>\<open>str(n)\<close>\<close>
  "str_nat n = (if n < 10 then [digit_char n] else str_nat (n div 10) @ [digit_char n])"

declare str_nat.simps [simp del]

definition zfill :: "nat \<Rightarrow> string \<Rightarrow> string" where
  "zfill w s = replicate (w - length s) (CHR ''0'') @ s"

definition strftime_ymd :: "date \<Rightarrow> string" where
  \<comment> \<open>\<open>strftime('%Y-%m-%d')\<close>, the year padded to four digits as on Windows\<close>
  "strftime_ymd dt =
     (case dt of (y, m, d) \<Rightarrow>
        zfill 4 (str_nat y) @ ''-'' @ zfill 2 (str_nat m) @ ''-'' @ zfill 2 (str_nat d))"

definition strftime_mdy :: "date \<Rightarrow> string" where
  \<comment> \<open>\<open>strftime('%m-%d-%Y')\<close>\<close>
  "strftime_mdy dt =
     (case dt of (y, m, d) \<Rightarrow>
        zfill 2 (str_nat m) @ ''-'' @ zfill 2 (str_nat d) @ ''-'' @ zfill 4 (str_nat y))"

subsection \<open>Session id and dates of a transcript\<close>

definition extract_session_id :: "string \<Rightarrow> string option" where
  "extract_session_id content = search_with match_session_id content"

fun search_from :: "(string \<Rightarrow> 'a option) \<Rightarrow> bool \<Rightarrow> string \<Rightarrow> 'a option" where
  \<comment> \<open>\<open>re.search\<close> of a pattern that begins with \<open>^\<close> under \<open>re.MULTILINE\<close>: only the
      start of the text and the positions after a newline are tried; the flag says that
      the head of the text is such a position\<close>
  "search_from m at_start [] = (if at_start then m [] else None)"
| "search_from m at_start (c # cs) =
     (case (if at_start then m (c # cs) else None) of
        Some g \<Rightarrow> Some g
      | None \<Rightarrow> search_from m (c = CHR 0x0A) cs)"

definition search_multiline :: "(string \<Rightarrow> 'a option) \<Rightarrow> string \<Rightarrow> 'a option" where
  "search_multiline m s = search_from m True s"

definition match_date_line :: "string \<Rightarrow> (string \<times> string \<times> string) option" where
  \<comment> \<open>\<open>Date:\s*(\d{4}-\d{2}-\d{2})\<close> at the head of the text\<close>
  "match_date_line s =
     (case match_literal ''Date:'' s of
        None \<Rightarrow> None
      | Some r \<Rightarrow>
          (case match_ymd (dropWhile isspace r) of
             None \<Rightarrow> None
           | Some (y, m, d, rest) \<Rightarrow> Some (y, m, d)))"

definition extract_start_date :: "string \<Rightarrow> py_error + date option" where
  \<comment> \<open>\<open>strptime\<close> raises \<open>ValueError\<close> on digits that are no calendar date\<close>
  "extract_start_date content =
     (case search_multiline match_date_line content of
        Some (y, m, d) \<Rightarrow>
          (case datetime (int_of_digits y) (int_of_digits m) (int_of_digits d) of
             Inl e \<Rightarrow> Inl e
           | Inr dt \<Rightarrow> Inr (Some dt))
      | None \<Rightarrow> Inr None)"

fun finditer_ymd :: "string \<Rightarrow> (string \<times> string \<times> string) list" where
  \<comment> \<open>\<open>re.finditer(r'(\d{4})-(\d{2})-(\d{2})', content)\<close>: the matches from left to right,
      the scan going on after the ten characters of a match\<close>
  "finditer_ymd [] = []"
| "finditer_ymd (c # cs) =
     (case match_ymd (c # cs) of
        Some (y, m, d, rest) \<Rightarrow> (y, m, d) # finditer_ymd (drop 9 cs)
      | None \<Rightarrow> finditer_ymd cs)"

definition sane_date :: "string \<times> string \<times> string \<Rightarrow> date option" where
  \<comment> \<open>the body of the loop of \<open>extract_latest_date\<close>: the date of a match, unless the
      constructor raises or the year is outside 2020 to 2030\<close>
  "sane_date g =
     (case g of (y, m, d) \<Rightarrow>
        (case datetime (int_of_digits y) (int_of_digits m) (int_of_digits d) of
           Inl e \<Rightarrow> None
         | Inr dt \<Rightarrow> if 2020 \<le> fst dt \<and> fst dt \<le> 2030 then Some dt else None))"

definition extract_latest_date :: "string \<Rightarrow> date option" where
  "extract_latest_date content =
     (let dates = List.map_filter sane_date (finditer_ymd content)
      in if dates \<noteq> [] then Some (Max (set dates)) else None)"

subsection \<open>Project name\<close>

abbreviation bsl :: char where
  "bsl \<equiv> CHR 0x5C"

definition is_project_char :: "char \<Rightarrow> bool" where
  \<comment> \<open>the class \<open>[a-zA-Z0-9_-]\<close>\<close>
  "is_project_char c \<longleftrightarrow> is_lower_az c \<or> is_upper_az c \<or> isdigit c \<or> c = CHR ''_'' \<or> c = CHR ''-''"

definition match_users_folder :: "string \<Rightarrow> string \<Rightarrow> (string \<times> string) option" where
  \<comment> \<open>\<open>:\\Users\\[^\\]+\\FOLDER\\([a-zA-Z0-9_-]+)\<close> at the head of the text: group 1 and
      the text after it\<close>
  "match_users_folder folder s =
     (case match_literal ('':'' @ [bsl] @ ''Users'' @ [bsl]) s of
        None \<Rightarrow> None
      | Some r \<Rightarrow>
          if takeWhile (\<lambda>c. c \<noteq> bsl) r = [] then None
          else
            (case match_literal ([bsl] @ folder @ [bsl]) (dropWhile (\<lambda>c. c \<noteq> bsl) r) of
               None \<Rightarrow> None
             | Some r1 \<Rightarrow>
                 if takeWhile is_project_char r1 = [] then None
                 else Some (takeWhile is_project_char r1, dropWhile is_project_char r1)))"

definition match_working_directory :: "string \<Rightarrow> string \<Rightarrow> string option" where
  \<comment> \<open>\<open>Working directory:\s*[A-Z]:\\Users\\[^\\]+\\FOLDER\\([a-zA-Z0-9_-]+)\<close>\<close>
  "match_working_directory folder s =
     (case match_literal ''Working directory:'' s of
        None \<Rightarrow> None
      | Some r \<Rightarrow>
          (case dropWhile isspace r of
             [] \<Rightarrow> None
           | drive # r1 \<Rightarrow>
               if is_upper_az drive then map_option fst (match_users_folder folder r1) else None))"

definition match_c_projects :: "string \<Rightarrow> string option" where
  \<comment> \<open>\<open>C:\\Users\\[^\\]+\\Projects\\([a-zA-Z0-9_-]+)[\s\\"]\<close>\<close>
  "match_c_projects s =
     (case match_literal ''C'' s of
        None \<Rightarrow> None
      | Some r \<Rightarrow>
          (case match_users_folder ''Projects'' r of
             None \<Rightarrow> None
           | Some (g, rest) \<Rightarrow>
               (case rest of
                  [] \<Rightarrow> None
                | c # cs \<Rightarrow> if isspace c \<or> c = bsl \<or> c = CHR 0x22 then Some g else None)))"

fun first_valid_project :: "(string \<Rightarrow> string option) list \<Rightarrow> string \<Rightarrow> string option" where
  \<comment> \<open>the loop over the patterns\<close>
  "first_valid_project [] content = None"
| "first_valid_project (pattern # patterns) content =
     (case search_with pattern content of
        Some project \<Rightarrow>
          if length project > 2 \<and> length project < 50 \<and> \<not> startswith ''-'' project
          then Some project
          else first_valid_project patterns content
      | None \<Rightarrow> first_valid_project patterns content)"

definition extract_project_name :: "string \<Rightarrow> string option" where
  "extract_project_name content =
     first_valid_project
       [match_working_directory ''Projects'', match_working_directory ''Downloads'',
        match_c_projects] content"

subsection \<open>Description and title\<close>

definition is_agent_session :: "string \<Rightarrow> string \<Rightarrow> bool" where
  "is_agent_session content filename \<longleftrightarrow>
     contains ''agent-'' (lower filename) \<or> contains ''subagent'' (take 500 (lower content))"

definition user_heading :: string where
  \<comment> \<open>\<open>## \<close>, the bust emoji U+1F464 in UTF-8, \<open> User\<close>\<close>
  "user_heading = ''## '' @ [CHR 0xF0, CHR 0x9F, CHR 0x91, CHR 0xA4] @ '' User''"

definition match_first_message :: "string \<Rightarrow> string \<Rightarrow> string option" where
  \<comment> \<open>\<open>HEADING\s*\n\s*([^#\n][^\n]*)\<close> at the head of the text: group 1. The whitespace
      after the heading must hold a newline. When the text after it starts with a
      character other than \<open>#\<close> the group is the line that starts there. Otherwise the
      matcher backs up: the group starts at the last character of the whitespace that
      is not a newline, which must have a newline before it.\<close>
  "match_first_message heading s =
     (case match_literal heading s of
        None \<Rightarrow> None
      | Some r \<Rightarrow>
          (let w = takeWhile isspace r; t = dropWhile isspace r
           in if CHR 0x0A \<notin> set w then None
              else if t \<noteq> [] \<and> hd t \<noteq> CHR ''#'' then Some (takeWhile (\<lambda>c. c \<noteq> CHR 0x0A) t)
              else
                (case dropWhile (\<lambda>c. c = CHR 0x0A) (rev w) of
                   [] \<Rightarrow> None
                 | x # front \<Rightarrow>
                     if CHR 0x0A \<in> set front
                     then Some (x # takeWhile (\<lambda>c. c \<noteq> CHR 0x0A)
                                     (takeWhile (\<lambda>c. c = CHR 0x0A) (rev w) @ t))
                     else None)))"

definition topic_of :: "string \<Rightarrow> string option" where
  \<comment> \<open>lines 121 to 147: the canned slug of the first message, if a rule applies\<close>
  "topic_of group1 =
     (let first_msg = take 200 (strip group1)
      in if startswith ''`'' first_msg \<or> startswith ''{'' first_msg \<or> contains ''Caveat:'' first_msg
         then None
         else
           (let first_msg_lower = lower first_msg
            in if contains ''excel'' first_msg_lower \<and>
                  (contains ''google'' first_msg_lower \<or> contains ''sheet'' first_msg_lower)
               then Some ''excel-to-sheets-migration''
               else if contains ''mitel'' first_msg_lower then Some ''mitel-skill-development''
               else if contains ''read'' first_msg_lower \<and> contains ''ai'' first_msg_lower
               then Some ''read-ai-clone''
               else if contains ''milestone'' first_msg_lower \<or> contains ''powershell'' first_msg_lower
               then Some ''milestone-powershell''
               else if contains ''plugin'' first_msg_lower then Some ''plugin-development''
               else if contains ''test'' first_msg_lower then Some ''testing''
               else if contains ''bug'' first_msg_lower \<or> contains ''fix'' first_msg_lower
               then Some ''bugfix''
               else if contains ''feature'' first_msg_lower then Some ''feature-development''
               else if contains ''extract'' first_msg_lower \<and> contains ''conversation'' first_msg_lower
               then Some ''conversation-extraction''
               else None))"

definition generate_description :: "string \<Rightarrow> string option \<Rightarrow> string \<Rightarrow> string" where
  "generate_description content project_name filename =
     (if is_agent_session content filename then
        (if truthy project_name \<and> length (the project_name) < 30 then
           (let clean_name = sanitize_description (the project_name)
            in if clean_name \<noteq> [] \<and> length clean_name > 2 then clean_name @ ''-subagent''
               else ''subagent'')
         else ''subagent'')
      else
        (let match = (case search_with (match_first_message user_heading) content of
                        Some g \<Rightarrow> Some g
                      | None \<Rightarrow> search_with (match_first_message ''## Human'') content)
         in case (case match of Some g \<Rightarrow> topic_of g | None \<Rightarrow> None) of
              Some topic \<Rightarrow> topic
            | None \<Rightarrow>
                if truthy project_name then sanitize_description (the project_name)
                else ''conversation''))"

fun title_from :: "bool \<Rightarrow> string \<Rightarrow> string" where
  \<comment> \<open>\<open>str.title\<close>; the flag says that the character before is a letter\<close>
  "title_from prev [] = []"
| "title_from prev (c # cs) =
     (if is_lower_az c then (if prev then c else upper_char c) # title_from True cs
      else if is_upper_az c then (if prev then lower_char c else c) # title_from True cs
      else c # title_from False cs)"

definition title_of :: "string \<Rightarrow> string" where
  \<comment> \<open>\<open>description.replace('-', ' ').title()\<close>\<close>
  "title_of description =
     title_from False (map (\<lambda>c. if c = CHR ''-'' then CHR '' '' else c) description)"

subsection \<open>Frontmatter\<close>

fun join :: "string \<Rightarrow> string list \<Rightarrow> string" where
  \<comment> \<open>\<open>sep.join(lines)\<close>\<close>
  "join sep [] = []"
| "join sep [x] = x"
| "join sep (x # y # zs) = x @ sep @ join sep (y # zs)"

definition create_frontmatter ::
  "string \<Rightarrow> date \<Rightarrow> date \<Rightarrow> string \<Rightarrow> string option \<Rightarrow> bool \<Rightarrow> string" where
  "create_frontmatter session_id start_date end_date title project is_subagent =
     join ''\<newline>''
       ([''---'',
         ''session_id: '' @ session_id,
         ''title: '' @ [CHR 0x22] @ title @ [CHR 0x22],
         ''start_date: '' @ strftime_ymd start_date,
         ''end_date: '' @ strftime_ymd end_date] @
        (if truthy project then [''project: '' @ [CHR 0x22] @ the project @ [CHR 0x22]] else []) @
        [''conversation_type: '' @ [CHR 0x22] @
           (if is_subagent then ''subagent'' else ''conversation'') @ [CHR 0x22],
         ''status: '' @ [CHR 0x22] @ ''complete'' @ [CHR 0x22],
         ''is_archived: false'',
         ''has_actionable_outcomes: false'',
         ''outcome_summary: '' @ [CHR 0x22, CHR 0x22],
         ''ai_model: '' @ [CHR 0x22] @ ''claude-opus-4-5'' @ [CHR 0x22],
         ''is_reviewed: false'',
         ''topics: []'',
         ''related_conversations: []'',
         ''tags: [claude-code, conversation]'',
         ''---'',
         ''''])"

definition match_frontmatter_end :: "string \<Rightarrow> string option" where
  \<comment> \<open>\<open>---\s*$\<close> at the head of the text, under \<open>re.MULTILINE\<close>: the text from the end of
      the match on. The whitespace after the hyphens runs to the end of the text, or the
      match ends before the last newline of that whitespace.\<close>
  "match_frontmatter_end s =
     (case match_literal ''---'' s of
        None \<Rightarrow> None
      | Some r \<Rightarrow>
          (let w = takeWhile isspace r; t = dropWhile isspace r
           in if t = [] then Some []
              else if CHR 0x0A \<in> set w
              then Some (CHR 0x0A # rev (takeWhile (\<lambda>c. c \<noteq> CHR 0x0A) (rev w)) @ t)
              else None))"

definition add_frontmatter_to_content :: "string \<Rightarrow> string \<Rightarrow> string" where
  "add_frontmatter_to_content content frontmatter =
     (let content1 =
            (if startswith ''---'' content then
               (case search_multiline match_frontmatter_end (drop 3 content) of
                  Some after_end \<Rightarrow> lstrip after_end
                | None \<Rightarrow> content)
             else content)
      in frontmatter @ content1)"

subsection \<open>process_file and main\<close>

record result =
  res_old_name :: string
  res_new_name :: string
  res_session_id :: string
  res_start_date :: string
  res_end_date :: string
  res_description :: string

datatype message =
    Error_reading string
  | Skipping_no_session_id string
  | Skipping_no_start_date string
  | Would_rename string string
  | Renamed string string

definition date_range :: "string \<Rightarrow> py_error + (date \<times> date) option" where
  \<comment> \<open>lines 219 to 227: the start date and the end date after the fallback; \<open>None\<close> when
      there is no start date\<close>
  "date_range content =
     (case extract_start_date content of
        Inl e \<Rightarrow> Inl e
      | Inr start_date \<Rightarrow>
          (let end_date = extract_latest_date content
           in case start_date of
                None \<Rightarrow> Inr None
              | Some start \<Rightarrow>
                  (case end_date of
                     None \<Rightarrow> Inr (Some (start, start))
                   | Some e \<Rightarrow> if e < start then Inr (Some (start, start))
                               else Inr (Some (start, e)))))"

definition exists :: "dir \<Rightarrow> string \<Rightarrow> bool" where
  "exists fs p \<longleftrightarrow> p \<in> fst ` set fs"

definition suffixed_name :: "string \<Rightarrow> nat \<Rightarrow> string" where
  \<comment> \<open>the name of line 248 for a counter\<close>
  "suffixed_name stem counter = stem @ ''-'' @ str_nat counter @ ''.md''"

function collision_loop :: "dir \<Rightarrow> string \<Rightarrow> string \<Rightarrow> nat \<Rightarrow> string \<Rightarrow> string" where
  \<comment> \<open>the loop of lines 247 to 250, from a counter and a candidate name\<close>
  "collision_loop fs filepath stem counter new_name =
     (if exists fs new_name \<and> new_name \<noteq> filepath
      then collision_loop fs filepath stem (counter + 1) (suffixed_name stem counter)
      else new_name)"
  by pat_completeness auto
termination
proof -
  have ne: "str_nat n \<noteq> []" for n
    by (subst str_nat.simps) simp
  have dinj: "digit_char a = digit_char b \<Longrightarrow> a mod 10 = b mod 10" for a b
  proof -
    assume h: "digit_char a = digit_char b"
    have d: "distinct ''0123456789''" by simp
    have "a mod 10 < length ''0123456789''" "b mod 10 < length ''0123456789''" by simp_all
    then show ?thesis using h d unfolding digit_char_def
      by (simp only: nth_eq_iff_index_eq)
  qed
  have inj: "str_nat a = str_nat b \<Longrightarrow> a = b" for a b
  proof (induction a arbitrary: b rule: str_nat.induct)
    case (1 n)
    show ?case
    proof (cases "n < 10")
      case True
      then have sn: "str_nat n = [digit_char n]" by (subst str_nat.simps) simp
      then have sb: "str_nat b = [digit_char n]" using "1.prems" by simp
      then have l: "length (str_nat b) = 1" by simp
      have "b < 10"
      proof (rule ccontr)
        assume "\<not> b < 10"
        then have "str_nat b = str_nat (b div 10) @ [digit_char b]" by (subst str_nat.simps) simp
        then show False using l ne[of "b div 10"] by (cases "str_nat (b div 10)") auto
      qed
      then have "str_nat b = [digit_char b]" by (subst str_nat.simps) simp
      then have "digit_char n = digit_char b" using sb by simp
      then have "n mod 10 = b mod 10" by (rule dinj)
      then show ?thesis using True \<open>b < 10\<close> by simp
    next
      case False
      then have sn: "str_nat n = str_nat (n div 10) @ [digit_char n]" by (subst str_nat.simps) simp
      have "\<not> b < 10"
      proof
        assume "b < 10"
        then have "str_nat b = [digit_char b]" by (subst str_nat.simps) simp
        then show False using sn "1.prems" ne[of "n div 10"] by (cases "str_nat (n div 10)") auto
      qed
      then have sb: "str_nat b = str_nat (b div 10) @ [digit_char b]" by (subst str_nat.simps) simp
      have eq: "str_nat (n div 10) @ [digit_char n] = str_nat (b div 10) @ [digit_char b]"
        using sn sb "1.prems" by simp
      have e1: "str_nat (n div 10) = str_nat (b div 10)" using eq by simp
      have e2: "digit_char n = digit_char b" using eq by simp
      have d1: "n div 10 = b div 10" using "1.IH"[OF False e1] .
      have d2: "n mod 10 = b mod 10" using e2 by (rule dinj)
      have "n = 10 * (n div 10) + n mod 10" by simp
      also have "\<dots> = 10 * (b div 10) + b mod 10" using d1 d2 by simp
      also have "\<dots> = b" by simp
      finally show ?thesis .
    qed
  qed
  define later where "later fs stem counter = {k. counter \<le> k \<and> exists fs (suffixed_name stem k)}"
    for fs :: dir and stem :: string and counter :: nat
  have fin: "finite (later fs stem counter)" for fs stem counter
  proof -
    have "inj_on (suffixed_name stem) (later fs stem counter)"
      by (auto simp: inj_on_def suffixed_name_def dest: inj)
    moreover have "suffixed_name stem ` later fs stem counter \<subseteq> fst ` set fs"
      by (auto simp: later_def exists_def)
    ultimately show ?thesis by (meson finite_imageI finite_set finite_subset inj_on_finite)
  qed
  show ?thesis
  proof (relation "measure (\<lambda>(fs, filepath, stem, counter, new_name).
            2 * card (later fs stem counter) +
            (if exists fs new_name \<and> new_name \<noteq> filepath then 1 else 0))")
    show "wf (measure (\<lambda>(fs, filepath, stem, counter, new_name).
            2 * card (later fs stem counter) +
            (if exists fs new_name \<and> new_name \<noteq> filepath then 1 else 0)))" by simp
  next
    fix fs :: dir and filepath stem :: string and counter :: nat and new_name :: string
    assume c: "exists fs new_name \<and> new_name \<noteq> filepath"
    have sub: "later fs stem (counter + 1) \<subseteq> later fs stem counter"
      by (auto simp: later_def)
    show "((fs, filepath, stem, counter + 1, suffixed_name stem counter),
           (fs, filepath, stem, counter, new_name))
          \<in> measure (\<lambda>(fs, filepath, stem, counter, new_name).
            2 * card (later fs stem counter) +
            (if exists fs new_name \<and> new_name \<noteq> filepath then 1 else 0))"
    proof (cases "exists fs (suffixed_name stem counter)")
      case True
      then have "counter \<in> later fs stem counter" "counter \<notin> later fs stem (counter + 1)"
        by (auto simp: later_def)
      then have "later fs stem (counter + 1) \<subset> later fs stem counter" using sub by blast
      then have "card (later fs stem (counter + 1)) < card (later fs stem counter)"
        using fin by (simp add: psubset_card_mono)
      then show ?thesis using c by simp
    next
      case False
      have "card (later fs stem (counter + 1)) \<le> card (later fs stem counter)"
        using sub fin by (simp add: card_mono)
      then show ?thesis using c False by simp
    qed
  qed
qed

declare collision_loop.simps [simp del]

definition process_file ::
  "dir \<Rightarrow> string \<Rightarrow> bool \<Rightarrow> py_error + (result option \<times> message list \<times> dir)" where
  "process_file fs filepath dry_run =
     (case read_text fs filepath of
        Inl e \<Rightarrow> Inr (None, [Error_reading filepath], fs)
      | Inr content \<Rightarrow>
          (let session_id = extract_session_id content
           in if \<not> truthy session_id then Inr (None, [Skipping_no_session_id filepath], fs)
              else
                (case date_range content of
                   Inl e \<Rightarrow> Inl e
                 | Inr None \<Rightarrow> Inr (None, [Skipping_no_start_date filepath], fs)
                 | Inr (Some (start_date, end_date)) \<Rightarrow>
                     (let project_name = extract_project_name content;
                          description = generate_description content project_name filepath;
                          title = title_of description;
                          is_subagent = is_agent_session content filepath;
                          frontmatter = create_frontmatter (the session_id) start_date end_date
                                          title project_name is_subagent;
                          stem = strftime_mdy start_date @ ''--'' @ strftime_mdy end_date @
                                 ''-'' @ description;
                          new_name = collision_loop fs filepath stem 1 (stem @ ''.md'');
                          res = \<lparr>res_old_name = filepath, res_new_name = new_name,
                                 res_session_id = the session_id,
                                 res_start_date = strftime_ymd start_date,
                                 res_end_date = strftime_ymd end_date,
                                 res_description = description\<rparr>
                      in if dry_run then Inr (Some res, [Would_rename filepath new_name], fs)
                         else
                           (let new_content = add_frontmatter_to_content content frontmatter;
                                fs1 = write_text fs new_name new_content;
                                fs2 = (if new_name \<noteq> filepath then unlink fs1 filepath else fs1)
                            in Inr (Some res, [Renamed filepath new_name], fs2))))))"

fun rename_loop ::
  "dir \<Rightarrow> bool \<Rightarrow> string list \<Rightarrow> py_error + (result list \<times> message list \<times> dir)" where
  \<comment> \<open>the loop of \<open>main\<close> over the sorted files\<close>
  "rename_loop fs dry_run [] = Inr ([], [], fs)"
| "rename_loop fs dry_run (f # files) =
     (case process_file fs f dry_run of
        Inl e \<Rightarrow> Inl e
      | Inr (res, printed, fs1) \<Rightarrow>
          (case rename_loop fs1 dry_run files of
             Inl e \<Rightarrow> Inl e
           | Inr (results, printed', fs2) \<Rightarrow>
               Inr ((case res of Some r \<Rightarrow> [r] | None \<Rightarrow> []) @ results, printed @ printed', fs2)))"

definition main :: "dir \<Rightarrow> bool \<Rightarrow> py_error + (result list \<times> message list \<times> dir)" where
  "main backup_dir dry_run =
     rename_loop backup_dir dry_run (sort (filter glob_md (map fst backup_dir)))"

section \<open>Vocabulary of the properties\<close>

definition counted :: "stats \<Rightarrow> nat" where
  \<comment> \<open>the sum of the four final counts\<close>
  "counted st = updated st + new st + unchanged st + skipped st"

definition index_in_dir :: "index \<Rightarrow> dir \<Rightarrow> bool" where
  \<comment> \<open>every indexed path names a file of the directory\<close>
  "index_in_dir existing fs \<longleftrightarrow>
     (\<forall>sid p n. existing sid = Some (p, n) \<longrightarrow> p \<in> fst ` set fs)"








definition file_stem :: "string \<Rightarrow> string \<Rightarrow> date \<Rightarrow> date \<Rightarrow> string" where
  \<comment> \<open>the target name of \<open>process_file\<close> without \<open>.md\<close>\<close>
  "file_stem content filepath start_date end_date =
     strftime_mdy start_date @ ''--'' @ strftime_mdy end_date @ ''-'' @
     generate_description content (extract_project_name content) filepath"

definition file_frontmatter :: "string \<Rightarrow> string \<Rightarrow> date \<Rightarrow> date \<Rightarrow> string" where
  \<comment> \<open>the frontmatter \<open>process_file\<close> renders for a file\<close>
  "file_frontmatter content filepath start_date end_date =
     create_frontmatter (the (extract_session_id content)) start_date end_date
       (title_of (generate_description content (extract_project_name content) filepath))
       (extract_project_name content) (is_agent_session content filepath)"

definition file_result :: "dir \<Rightarrow> string \<Rightarrow> string \<Rightarrow> date \<Rightarrow> date \<Rightarrow> result" where
  \<comment> \<open>the result \<open>process_file\<close> returns for a file\<close>
  "file_result fs content filepath start_date end_date =
     \<lparr>res_old_name = filepath,
      res_new_name = collision_loop fs filepath (file_stem content filepath start_date end_date) 1
                       (file_stem content filepath start_date end_date @ ''.md''),
      res_session_id = the (extract_session_id content),
      res_start_date = strftime_ymd start_date,
      res_end_date = strftime_ymd end_date,
      res_description = generate_description content (extract_project_name content) filepath\<rparr>"

section \<open>Properties\<close>

subsection \<open>Text and files\<close>

lemma startswith_iff: "startswith p s \<longleftrightarrow> (\<exists>b. s = p @ b)"
  by (induction p s rule: startswith.induct) auto

lemma contains_iff: "contains p s \<longleftrightarrow> (\<exists>a b. s = a @ p @ b)"
proof (induction s)
  case Nil
  then show ?case by auto
next
  case (Cons c cs)
  show ?case
  proof
    assume "contains p (c # cs)"
    then consider "startswith p (c # cs)" | "contains p cs" by auto
    then show "\<exists>a b. c # cs = a @ p @ b"
    proof cases
      case 1
      then obtain b where "c # cs = p @ b" by (auto simp: startswith_iff)
      then have "c # cs = [] @ p @ b" by simp
      then show ?thesis by blast
    next
      case 2
      then obtain a b where "cs = a @ p @ b" using Cons.IH by auto
      then have "c # cs = (c # a) @ p @ b" by simp
      then show ?thesis by blast
    qed
  next
    assume "\<exists>a b. c # cs = a @ p @ b"
    then obtain a b where ab: "c # cs = a @ p @ b" by auto
    show "contains p (c # cs)"
    proof (cases a)
      case Nil
      have "startswith p (c # cs)" unfolding startswith_iff using ab Nil
        by (intro exI[of _ b]) simp
      then show ?thesis by simp
    next
      case (Cons x xs)
      then have "cs = xs @ p @ b" using ab by simp
      then show ?thesis using Cons.IH by auto
    qed
  qed
qed

lemma find_str_Some: "find_str p s = Some i \<Longrightarrow> startswith p (drop i s)"
  by (induction s arbitrary: i) (auto split: if_splits)


lemma map_of_write_text: "map_of (write_text fs p c) = (map_of fs)(p \<mapsto> c)"
  by (induction fs p c rule: write_text.induct) auto

lemma names_write_text: "fst ` set (write_text fs p c) = insert p (fst ` set fs)"
  by (induction fs p c rule: write_text.induct) auto

lemma length_USER_NOTES_END: "USER_NOTES_END \<noteq> []"
  by (simp add: USER_NOTES_END_def)

lemma extract_user_notes_Some:
  assumes "extract_user_notes content = Some b"
  shows "b \<noteq> [] \<and> contains b content"
proof -
  from assms obtain s e where s: "find_str USER_NOTES_START content = Some s"
    and e: "find_str USER_NOTES_END content = Some e" and lt: "s < e"
    and b: "b = take (e + length USER_NOTES_END - s) (drop s content)"
    by (auto simp: extract_user_notes_def split: option.splits if_splits)
  have "startswith USER_NOTES_START (drop s content)" using s by (rule find_str_Some)
  then have ne: "drop s content \<noteq> []"
    by (auto simp: startswith_iff USER_NOTES_START_def)
  have pos: "0 < e + length USER_NOTES_END - s" using lt by simp
  have "b \<noteq> []" using ne pos b by (cases "drop s content") auto
  moreover have "content = take s content @ b @ drop (e + length USER_NOTES_END - s) (drop s content)"
    unfolding b by (simp only: append_take_drop_id)
  then have "contains b content" unfolding contains_iff by blast
  ultimately show ?thesis by simp
qed

lemma collapse_hyphens_set: "set (collapse_hyphens s) \<subseteq> set s"
  by (induction s rule: collapse_hyphens.induct) auto

subsection \<open>The slug sanitizer\<close>

text \<open>
  Claim C4. The sanitizer is to return a slug over \<open>[a-z0-9-]\<close> of at most 50
  characters that neither starts nor ends with a hyphen. The code trims the hyphens
  first and truncates to 50 characters afterwards: on 49 letters followed by \<open>-b\<close> the
  trimmed slug has 51 characters, and its first 50 end with the hyphen.
\<close>

theorem sanitize_description_trailing_hyphen:
  "sanitize_description ''aaaaaaaaaaaaaaaaaaaaaaaaaaaaaaaaaaaaaaaaaaaaaaaaa-b'' =
     ''aaaaaaaaaaaaaaaaaaaaaaaaaaaaaaaaaaaaaaaaaaaaaaaaa-'' \<and>
   last (sanitize_description ''aaaaaaaaaaaaaaaaaaaaaaaaaaaaaaaaaaaaaaaaaaaaaaaaa-b'') = CHR ''-''"
  by code_simp

subsection \<open>The reconciliation loop\<close>

lemma read_text_in_dir: "p \<in> fst ` set fs \<Longrightarrow> \<exists>c. read_text fs p = Inr c"
  by (auto simp: read_text_def map_of_eq_None_iff split: option.splits)

lemma index_in_dir_write: "index_in_dir existing fs \<Longrightarrow> index_in_dir existing (write_text fs p c)"
  by (auto simp: index_in_dir_def names_write_text)

lemma update_file_total:
  assumes "index_in_dir existing fs"
  shows "\<exists>fs' st'. update_file existing (fs, st) f = Inr (fs', st') \<and> index_in_dir existing fs'
           \<and> counted st' = counted st + 1"
proof -
  obtain name content where f: "f = (name, content)" by (cases f)
  show ?thesis
  proof (cases "two_tier_session_id name content")
    case None
    then show ?thesis using assms by (simp add: update_file_def f counted_def)
  next
    case (Some sid)
    show ?thesis
    proof (cases "sid = []")
      case True
      then show ?thesis using assms Some by (simp add: update_file_def f counted_def)
    next
      case False
      show ?thesis
      proof (cases "existing sid")
        case None
        then show ?thesis using assms Some False
          by (simp add: update_file_def f counted_def index_in_dir_write)
      next
        case (Some a)
        obtain p n where a: "a = (p, n)" by (cases a)
        have "p \<in> fst ` set fs" using assms Some a by (auto simp: index_in_dir_def)
        then obtain old where old: "read_text fs p = Inr old" using read_text_in_dir by blast
        show ?thesis using assms \<open>two_tier_session_id name content = Some sid\<close> False Some a old
          by (simp add: update_file_def f counted_def index_in_dir_write Let_def)
      qed
    qed
  qed
qed

lemma update_loop_total:
  assumes "index_in_dir existing fs"
  shows "\<exists>fs' st'. update_loop existing (fs, st) fl = Inr (fs', st') \<and>
           counted st' = counted st + length fl"
  using assms
proof (induction fl arbitrary: fs st)
  case Nil
  then show ?case by simp
next
  case (Cons f fl)
  from update_file_total[OF Cons.prems, of st f] obtain fs1 st1 where
    1: "update_file existing (fs, st) f = Inr (fs1, st1)" and 2: "index_in_dir existing fs1"
    and 3: "counted st1 = counted st + 1" by blast
  from Cons.IH[OF 2, of st1] obtain fs2 st2 where
    4: "update_loop existing (fs1, st1) fl = Inr (fs2, st2)" and 5: "counted st2 = counted st1 + length fl"
    by blast
  show ?case using 1 3 4 5 by simp
qed
















subsection \<open>Reconciling an archive with its own transcripts\<close>




lemma shared_id_run:
  "update_extracts
         [(''a.md'', ''Session ID: ab-1\<newline>x''), (''b.md'', ''Session ID: ab-2\<newline>y'')]
         (Some [(''claude-conversation-2026-01-13-ab.md'', ''Session ID: ab-1\<newline>x''),
                (''claude-conversation-2026-01-14-ab.md'', ''Session ID: ab-2\<newline>y'')])
       = Inr ([(''a.md'', ''Session ID: ab-1\<newline>x''), (''b.md'', ''Session ID: ab-2\<newline>y'')],
              Counts \<lparr>updated = 2, new = 0, unchanged = 0, skipped = 0, notes_preserved = 0\<rparr>)"
  by code_simp

subsection \<open>Change detection\<close>



subsection \<open>The User Notes Block across an update\<close>

text \<open>
  Where \<open>extract_user_notes\<close> finds the block, the written content ends with it: the new
  content without its trailing whitespace, a blank line, the block, a newline.
\<close>

lemma user_notes_kept:
  assumes "extract_user_notes old_content = Some notes"
  shows "merge_with_user_notes new_content (extract_user_notes old_content) =
           rstrip new_content @ ''\<newline>\<newline>'' @ notes @ ''\<newline>''"
  using assms extract_user_notes_Some[OF assms] by (simp add: merge_with_user_notes_def)


text \<open>
  Claim C1. A User Notes Block of an entry is to be in the rewritten file after every
  update. \<open>extract_user_notes\<close> looks for the first end marker from the start of the
  content, not from the start marker on: in an entry that has an end marker before its
  block, the block is not found, and the update writes the new content without it.
\<close>

theorem user_notes_lost_after_stray_end_marker:
  "extract_user_notes (''Session ID: ab\<newline>old\<newline>'' @ USER_NOTES_END @ ''\<newline>'' @
      USER_NOTES_START @ ''\<newline>mine\<newline>'' @ USER_NOTES_END @ ''\<newline>'') = None \<and>
   update_extracts
     [(''a.md'', ''Session ID: ab\<newline>old\<newline>'' @ USER_NOTES_END @ ''\<newline>'' @
         USER_NOTES_START @ ''\<newline>mine\<newline>'' @ USER_NOTES_END @ ''\<newline>'')]
     (Some [(''claude-conversation-2026-01-13-abcdef12.md'', ''Session ID: ab\<newline>new\<newline>'')])
   = Inr ([(''a.md'', ''Session ID: ab\<newline>new\<newline>'')],
          Counts \<lparr>updated = 1, new = 0, unchanged = 0, skipped = 0, notes_preserved = 0\<rparr>)"
  by code_simp

subsection \<open>The description of an agent session\<close>

lemma first_valid_project_Some:
  "first_valid_project ps content = Some p \<Longrightarrow>
     2 < length p \<and> length p < 50 \<and> \<not> startswith ''-'' p"
  by (induction ps) (auto split: option.splits if_splits)

lemma extract_project_name_Some:
  "extract_project_name content = Some p \<Longrightarrow>
     2 < length p \<and> length p < 50 \<and> \<not> startswith ''-'' p"
  unfolding extract_project_name_def by (rule first_valid_project_Some)

text \<open>
  Claim C9. In an agent session the description is the sanitized project name followed by
  \<open>-subagent\<close> exactly when the extracted project name is shorter than 30 characters and
  its slug is longer than 2 characters. Otherwise it is the literal \<open>subagent\<close>, so for
  a project name of 30 to 49 characters, which the project name rules accept, the
  name is not used.
\<close>

theorem subagent_description:
  assumes "is_agent_session content filename"
  shows "(case extract_project_name content of
            None \<Rightarrow> generate_description content None filename = ''subagent''
          | Some p \<Rightarrow>
              (generate_description content (Some p) filename = sanitize_description p @ ''-subagent''
                 \<longleftrightarrow> length p < 30 \<and> 2 < length (sanitize_description p)) \<and>
              (generate_description content (Some p) filename = sanitize_description p @ ''-subagent''
                 \<or> generate_description content (Some p) filename = ''subagent'') \<and>
              (30 \<le> length p \<longrightarrow>
                 length p \<le> 49 \<and> generate_description content (Some p) filename = ''subagent''))"
proof (cases "extract_project_name content")
  case None
  then show ?thesis using assms by (simp add: generate_description_def truthy_def)
next
  case (Some p)
  then have v: "2 < length p \<and> length p < 50" using extract_project_name_Some by blast
  then have t: "truthy (Some p)" by (auto simp: truthy_def)
  have neq: "sanitize_description p @ ''-subagent'' \<noteq> ''subagent''"
  proof
    assume "sanitize_description p @ ''-subagent'' = ''subagent''"
    then have "length (sanitize_description p @ ''-subagent'') = length ''subagent''" by simp
    then show False by simp
  qed
  show ?thesis
  proof (cases "length p < 30 \<and> 2 < length (sanitize_description p)")
    case True
    then have "generate_description content (Some p) filename = sanitize_description p @ ''-subagent''"
      using assms t by (auto simp: generate_description_def Let_def)
    then show ?thesis using Some True by simp
  next
    case False
    then have "generate_description content (Some p) filename = ''subagent''"
      using assms t by (auto simp: generate_description_def Let_def)
    then show ?thesis using Some False v neq by auto
  qed
qed

theorem subagent_description_witness:
  "is_agent_session
     (''Working directory: C:'' @ [bsl] @ ''Users'' @ [bsl] @ ''me'' @ [bsl] @ ''Projects'' @ [bsl] @
      ''conversation-extractor-plugin1'') ''agent-9f3a.md'' \<and>
   extract_project_name
     (''Working directory: C:'' @ [bsl] @ ''Users'' @ [bsl] @ ''me'' @ [bsl] @ ''Projects'' @ [bsl] @
      ''conversation-extractor-plugin1'') = Some ''conversation-extractor-plugin1'' \<and>
   length ''conversation-extractor-plugin1'' = 30 \<and>
   generate_description
     (''Working directory: C:'' @ [bsl] @ ''Users'' @ [bsl] @ ''me'' @ [bsl] @ ''Projects'' @ [bsl] @
      ''conversation-extractor-plugin1'') (Some ''conversation-extractor-plugin1'') ''agent-9f3a.md''
     = ''subagent''"
proof -
  let ?c = "''Working directory: C:'' @ [bsl] @ ''Users'' @ [bsl] @ ''me'' @ [bsl] @ ''Projects'' @ [bsl] @
      ''conversation-extractor-plugin1''"
  have a: "is_agent_session ?c ''agent-9f3a.md''" by code_simp
  have p: "extract_project_name ?c = Some ''conversation-extractor-plugin1''" by code_simp
  have l: "length ''conversation-extractor-plugin1'' = 30" by simp
  show ?thesis using subagent_description[OF a] a p l by simp
qed

subsection \<open>The branches of process_file\<close>

lemma process_file_unreadable:
  "read_text fs filepath = Inl e \<Longrightarrow>
     process_file fs filepath dry_run = Inr (None, [Error_reading filepath], fs)"
  by (simp add: process_file_def)

lemma process_file_no_session_id:
  "read_text fs filepath = Inr content \<Longrightarrow> \<not> truthy (extract_session_id content) \<Longrightarrow>
     process_file fs filepath dry_run = Inr (None, [Skipping_no_session_id filepath], fs)"
  by (simp add: process_file_def)

lemma process_file_date_error:
  "read_text fs filepath = Inr content \<Longrightarrow> truthy (extract_session_id content) \<Longrightarrow>
     date_range content = Inl e \<Longrightarrow> process_file fs filepath dry_run = Inl e"
  by (simp add: process_file_def)

lemma process_file_no_start_date:
  "read_text fs filepath = Inr content \<Longrightarrow> truthy (extract_session_id content) \<Longrightarrow>
     date_range content = Inr None \<Longrightarrow>
     process_file fs filepath dry_run = Inr (None, [Skipping_no_start_date filepath], fs)"
  by (simp add: process_file_def)

lemma process_file_dry:
  "read_text fs filepath = Inr content \<Longrightarrow> truthy (extract_session_id content) \<Longrightarrow>
     date_range content = Inr (Some (start_date, end_date)) \<Longrightarrow>
     process_file fs filepath True =
       Inr (Some (file_result fs content filepath start_date end_date),
            [Would_rename filepath (res_new_name (file_result fs content filepath start_date end_date))],
            fs)"
  by (simp add: process_file_def file_result_def file_stem_def Let_def)

lemma process_file_write:
  "read_text fs filepath = Inr content \<Longrightarrow> truthy (extract_session_id content) \<Longrightarrow>
     date_range content = Inr (Some (start_date, end_date)) \<Longrightarrow>
     process_file fs filepath False =
       (let res = file_result fs content filepath start_date end_date;
            fs1 = write_text fs (res_new_name res)
                    (add_frontmatter_to_content content
                       (file_frontmatter content filepath start_date end_date))
        in Inr (Some res, [Renamed filepath (res_new_name res)],
                if res_new_name res \<noteq> filepath then unlink fs1 filepath else fs1))"
  by (simp add: process_file_def file_result_def file_stem_def file_frontmatter_def Let_def)

end
